theory Spec2Isabelle
  imports
    Complex_Main
    "HOL-Library.AList"
    "HOL-Library.Char_ord"
    "HOL-Library.List_Lexorder"
    "HOL-Library.Product_Lexorder"
    "HOL-Library.Multiset"
    "HOL-Library.Log_Nat"
begin

section \<open>Python values used by \<^verbatim>\<open>OTU_cleaver.py\<close>\<close>

text \<open>
  The exceptions the program can raise. None of them is caught (apart from the
  \<^verbatim>\<open>ValueError\<close> of \<^verbatim>\<open>fasta_parse\<close>, turned into \<^verbatim>\<open>sys.exit(-1)\<close>), so each one
  aborts the run with a non-zero exit status.
\<close>

datatype error =
    ValueError
  | KeyError
  | IndexError
  | UnboundLocalError
  | OverflowError
  | TypeError
  | SystemExit int

fun bind_err :: "error + 'a \<Rightarrow> ('a \<Rightarrow> error + 'b) \<Rightarrow> error + 'b" where
  "bind_err (Inl e) f = Inl e"
| "bind_err (Inr x) f = f x"

subsection \<open>Strings\<close>

text \<open>
  Strings are byte strings; identifiers and fields are taken to be ASCII, so the
  whitespace of \<^verbatim>\<open>str.strip()\<close> and of \<^verbatim>\<open>int()\<close> is the ASCII part of Python's
  \<^verbatim>\<open>str.isspace\<close>: tab, LF, VT, FF, CR, FS, GS, RS, US and space.
\<close>

definition py_isspace :: "char \<Rightarrow> bool" where
  "py_isspace c \<longleftrightarrow>
     c \<in> set [CHR 0x09, CHR 0x0A, CHR 0x0B, CHR 0x0C, CHR 0x0D,
              CHR 0x1C, CHR 0x1D, CHR 0x1E, CHR 0x1F, CHR 0x20]"

definition strip :: "string \<Rightarrow> string" where
  "strip s = rev (dropWhile py_isspace (rev (dropWhile py_isspace s)))"

text \<open>\<^verbatim>\<open>s.split(sep)\<close> for a one-character separator: never empty, \<^verbatim>\<open>"".split(sep) == [""]\<close>.\<close>

fun split_on :: "char \<Rightarrow> string \<Rightarrow> string list" where
  "split_on sep [] = [[]]"
| "split_on sep (c # cs) =
     (if c = sep then [] # split_on sep cs
      else (case split_on sep cs of [] \<Rightarrow> [[c]] | w # ws \<Rightarrow> (c # w) # ws))"

definition TAB :: char where
  "TAB = CHR 0x09"

text \<open>
  \<^verbatim>\<open>int(s, base)\<close> on a string: surrounding whitespace is dropped, one sign is
  allowed, base 16 allows a \<^verbatim>\<open>0x\<close> prefix (followed by at most one underscore), the
  digits may be separated by single underscores, and there must be at least one digit.
  \<open>None\<close> stands for \<^verbatim>\<open>ValueError\<close>.
\<close>

definition digit_val :: "char \<Rightarrow> nat option" where
  "digit_val c =
     (let n = (of_char c :: nat) in
      if 48 \<le> n \<and> n \<le> 57 then Some (n - 48)
      else if 97 \<le> n \<and> n \<le> 122 then Some (n - 87)
      else if 65 \<le> n \<and> n \<le> 90 then Some (n - 55)
      else None)"

definition digit_in_base :: "nat \<Rightarrow> char \<Rightarrow> nat option" where
  "digit_in_base b c =
     (case digit_val c of None \<Rightarrow> None | Some d \<Rightarrow> if d < b then Some d else None)"

definition digits_value :: "nat \<Rightarrow> string \<Rightarrow> nat option" where
  "digits_value b s =
     (if [] \<in> set (split_on (CHR ''_'') s) then None
      else map_option (foldl (\<lambda>acc d. acc * b + d) 0)
             (those (map (digit_in_base b) (filter (\<lambda>c. c \<noteq> CHR ''_'') s))))"

definition py_int :: "nat \<Rightarrow> string \<Rightarrow> int option" where
  "py_int b s =
     (let t = strip s;
          neg = (take 1 t = ''-'');
          u = (if take 1 t = ''-'' \<or> take 1 t = ''+'' then drop 1 t else t);
          v = (if b = 16 \<and> (take 2 u = ''0x'' \<or> take 2 u = ''0X'')
               then (if take 1 (drop 2 u) = ''_'' then drop 3 u else drop 2 u)
               else u)
      in map_option (\<lambda>n. if neg then - int n else int n) (digits_value b v))"

text \<open>\<^verbatim>\<open>str(n)\<close> for an integer.\<close>

fun nat_digits :: "nat \<Rightarrow> string" where
  "nat_digits n =
     (if n < 10 then [char_of (48 + n)]
      else nat_digits (n div 10) @ [char_of (48 + n mod 10)])"

declare nat_digits.simps [simp del]

definition py_str :: "int \<Rightarrow> string" where
  "py_str i = (if i < 0 then CHR ''-'' # nat_digits (nat (- i)) else nat_digits (nat i))"

subsection \<open>Floating point\<close>

text \<open>
  A Python \<^verbatim>\<open>float\<close> is an IEEE-754 binary64 number. A finite one is the rational
  number it denotes; every operation is the exact rational operation followed by
  rounding to the nearest binary64 number, ties to even: with \<open>e\<close> the binary exponent
  of the exact result (at least \<open>-1022\<close>), the result is the multiple of \<open>2 ^ (e - 52)\<close>
  nearest to it, and it is infinite when it reaches \<open>2 ^ 1024\<close>. Not-a-number never
  arises from the operations of this program.
\<close>

datatype pyfloat = Fin rat | PInf | NInf

definition round_half_even :: "rat \<Rightarrow> int" where
  "round_half_even y =
     (let f = \<lfloor>y\<rfloor>; r = y - of_int f
      in if r < 1 / 2 then f else if 1 / 2 < r then f + 1
         else if even f then f else f + 1)"

text \<open>The integer \<open>e\<close> with \<open>2 ^ e \<le> a < 2 ^ (e + 1)\<close>, for \<open>a > 0\<close>.\<close>

definition floor_log2 :: "rat \<Rightarrow> int" where
  "floor_log2 a =
     (let k = bitlen (fst (quotient_of a)) - bitlen (snd (quotient_of a))
      in if power_int 2 k \<le> a then k else k - 1)"

definition round_double :: "rat \<Rightarrow> pyfloat" where
  "round_double x =
     (if x = 0 then Fin 0
      else let a = \<bar>x\<bar>;
               e = floor_log2 a;
               q = power_int 2 (max e (- 1022) - 52);
               m = round_half_even (a / q)
           in if 1024 \<le> e \<or> (e = 1023 \<and> m = 2 ^ 53)
              then (if 0 < x then PInf else NInf)
              else Fin (if 0 < x then of_int m * q else - (of_int m * q)))"

text \<open>
  \<^verbatim>\<open>float(i)\<close>, as done implicitly when an \<^verbatim>\<open>int\<close> meets a \<^verbatim>\<open>float\<close> in \<^verbatim>\<open>*\<close> or \<^verbatim>\<open>+\<close>:
  correctly rounded, \<^verbatim>\<open>OverflowError\<close> when the integer is too large.
\<close>

definition float_of_int :: "int \<Rightarrow> error + rat" where
  "float_of_int i =
     (case round_double (of_int i) of Fin r \<Rightarrow> Inr r | PInf \<Rightarrow> Inl OverflowError
      | NInf \<Rightarrow> Inl OverflowError)"

text \<open>\<^verbatim>\<open>x * y\<close> for finite floats.\<close>

definition fl_mul :: "rat \<Rightarrow> rat \<Rightarrow> pyfloat" where
  "fl_mul x y = round_double (x * y)"

text \<open>\<^verbatim>\<open>2 * t\<close> and \<^verbatim>\<open>t + y\<close> for a float \<open>t\<close> and a finite float \<open>y\<close>.\<close>

fun fl_twice :: "pyfloat \<Rightarrow> pyfloat" where
  "fl_twice (Fin r) = round_double (2 * r)"
| "fl_twice PInf = PInf"
| "fl_twice NInf = NInf"

fun fl_add :: "pyfloat \<Rightarrow> rat \<Rightarrow> pyfloat" where
  "fl_add (Fin r) y = round_double (r + y)"
| "fl_add PInf y = PInf"
| "fl_add NInf y = NInf"

text \<open>Python compares an \<^verbatim>\<open>int\<close> with a \<^verbatim>\<open>float\<close> exactly.\<close>

fun int_lt_float :: "int \<Rightarrow> pyfloat \<Rightarrow> bool" where
  "int_lt_float v (Fin r) \<longleftrightarrow> of_int v < r"
| "int_lt_float v PInf \<longleftrightarrow> True"
| "int_lt_float v NInf \<longleftrightarrow> False"

definition int_ge_float :: "int \<Rightarrow> pyfloat \<Rightarrow> bool" where
  "int_ge_float v t \<longleftrightarrow> \<not> int_lt_float v t"

subsection \<open>Dictionaries, sets and the 256 buckets\<close>

text \<open>
  A \<^verbatim>\<open>dict\<close> is an association list with distinct keys in insertion order:
  \<^verbatim>\<open>d[k] = v\<close> is \<^const>\<open>AList.update\<close> (in place for a known key, at the end for a new
  one), \<^verbatim>\<open>del d[k]\<close> is \<^const>\<open>AList.delete\<close>, \<^verbatim>\<open>k in d\<close> and \<^verbatim>\<open>d[k]\<close> read
  \<^const>\<open>map_of\<close>. A \<^verbatim>\<open>set\<close> of strings is a list of distinct strings.
\<close>

type_synonym 'v dict = "(string \<times> 'v) list"

definition dict_del :: "string \<Rightarrow> 'v dict \<Rightarrow> error + 'v dict" where
  "dict_del k d = (if map_of d k = None then Inl KeyError else Inr (AList.delete k d))"

definition set_add :: "string \<Rightarrow> string list \<Rightarrow> string list" where
  "set_add x xs = (if x \<in> set xs then xs else xs @ [x])"

text \<open>\<^verbatim>\<open>xs[i]\<close> for a Python list: a negative index counts from the end.\<close>

definition norm_index :: "nat \<Rightarrow> int \<Rightarrow> nat option" where
  "norm_index len i =
     (if 0 \<le> i \<and> i < int len then Some (nat i)
      else if i < 0 \<and> - int len \<le> i then Some (nat (int len + i))
      else None)"

text \<open>
  \<^verbatim>\<open>index = int(amplicon[0:2], 16)\<close> followed by the access \<^verbatim>\<open>buckets[index]\<close>: the
  position of the bucket, \<^verbatim>\<open>ValueError\<close> when the prefix is not a hexadecimal number.
\<close>

definition hex_index :: "string \<Rightarrow> int option" where
  "hex_index a = py_int 16 (take 2 a)"

definition bucket_of :: "'a list \<Rightarrow> string \<Rightarrow> error + nat" where
  "bucket_of buckets a =
     (case hex_index a of
        None \<Rightarrow> Inl ValueError
      | Some i \<Rightarrow>
          (case norm_index (length buckets) i of
             None \<Rightarrow> Inl IndexError
           | Some j \<Rightarrow> Inr j))"

abbreviation new_buckets :: "'v dict list" where
  "new_buckets \<equiv> replicate 256 []"

text \<open>A \<^verbatim>\<open>for line in file\<close> loop without \<^verbatim>\<open>break\<close>, stopped by the first exception.\<close>

fun for_lines :: "('s \<Rightarrow> string \<Rightarrow> error + 's) \<Rightarrow> 's \<Rightarrow> string list \<Rightarrow> error + 's" where
  "for_lines body st [] = Inr st"
| "for_lines body st (line # rest) = bind_err (body st line) (\<lambda>st'. for_lines body st' rest)"

section \<open>PrevalenceSelector: \<^verbatim>\<open>per_sample_stats_parse\<close>\<close>

record ps_state =
  ps_stats :: "int dict list"
  ps_number_of_samples :: nat
  ps_previous_sample :: "string option"

definition per_sample_line :: "ps_state \<Rightarrow> string \<Rightarrow> error + ps_state" where
  "per_sample_line st line =
     (case take 5 (split_on TAB (strip line)) of
        [sample, cloud, mass, seed, seed_abundance] \<Rightarrow>
          bind_err (bucket_of (ps_stats st) seed) (\<lambda>index.
            let d = ps_stats st ! index;
                d' = (case map_of d seed of
                        Some v \<Rightarrow> AList.update seed (v + 1) d
                      | None \<Rightarrow> AList.update seed 1 d);
                st' = st\<lparr>ps_stats := (ps_stats st)[index := d']\<rparr>
            in Inr (if Some sample \<noteq> ps_previous_sample st'
                    then st'\<lparr>ps_previous_sample := Some sample,
                             ps_number_of_samples := ps_number_of_samples st' + 1\<rparr>
                    else st'))
      | _ \<Rightarrow> Inl ValueError)"

definition per_sample_stats_parse ::
  "string list \<Rightarrow> rat \<Rightarrow> error + (pyfloat \<times> int dict list)" where
  "per_sample_stats_parse per_sample_stats_file percentage =
     bind_err (for_lines per_sample_line
                 \<lparr>ps_stats = new_buckets, ps_number_of_samples = 0,
                  ps_previous_sample = None\<rparr> per_sample_stats_file) (\<lambda>st.
     bind_err (float_of_int (int (ps_number_of_samples st))) (\<lambda>n.
       let threshold = fl_mul percentage n;
           seeds = map (filter (\<lambda>(k, v). int_ge_float v threshold)) (ps_stats st)
       in Inr (threshold, seeds)))"

text \<open>\<^verbatim>\<open>PERCENTAGE = 0.05\<close>: the binary64 number nearest to one twentieth.\<close>

definition PERCENTAGE :: rat where
  "PERCENTAGE = 7205759403792794 / 2 ^ 57"

section \<open>GlobalSeedFilter: \<^verbatim>\<open>stats_parse\<close>\<close>

text \<open>A \<^verbatim>\<open>for line in file\<close> loop whose body may \<^verbatim>\<open>break\<close>.\<close>

datatype 's loop = Continue 's | Break 's

fun for_lines_break ::
  "('s \<Rightarrow> string \<Rightarrow> error + 's loop) \<Rightarrow> 's \<Rightarrow> string list \<Rightarrow> error + 's" where
  "for_lines_break body st [] = Inr st"
| "for_lines_break body st (line # rest) =
     (case body st line of
        Inl e \<Rightarrow> Inl e
      | Inr (Break st') \<Rightarrow> Inr st'
      | Inr (Continue st') \<Rightarrow> for_lines_break body st' rest)"

text \<open>
  Lines 117 to 121: the pruning rule applied to one record. \<^verbatim>\<open>int(cloud) > 1\<close> is
  tested first and short-circuits; then \<^verbatim>\<open>int(mass)\<close>, \<^verbatim>\<open>2 * threshold\<close>,
  \<^verbatim>\<open>int(singletons)\<close> and the sum are evaluated in that order.
\<close>

definition prune_record ::
  "pyfloat \<Rightarrow> 'v dict list \<Rightarrow> string \<Rightarrow> string \<Rightarrow> string \<Rightarrow> string \<Rightarrow> error + 'v dict list" where
  "prune_record threshold seeds cloud mass seed singletons =
     (case py_int 10 cloud of
        None \<Rightarrow> Inl ValueError
      | Some c \<Rightarrow>
          if \<not> 1 < c then Inr seeds
          else (case py_int 10 mass of
                  None \<Rightarrow> Inl ValueError
                | Some m \<Rightarrow>
                    (case py_int 10 singletons of
                       None \<Rightarrow> Inl ValueError
                     | Some sg \<Rightarrow>
                         bind_err (float_of_int sg) (\<lambda>sf.
                           if int_ge_float m (fl_add (fl_twice threshold) sf)
                           then bind_err (bucket_of seeds seed) (\<lambda>index.
                                  if map_of (seeds ! index) seed \<noteq> None
                                  then Inr (seeds[index := AList.delete seed (seeds ! index)])
                                  else Inr seeds)
                           else Inr seeds))))"

definition stats_line ::
  "pyfloat \<Rightarrow> 'v dict list \<Rightarrow> string \<Rightarrow> error + 'v dict list loop" where
  "stats_line threshold seeds line =
     (case take 5 (split_on TAB (strip line)) of
        [cloud, mass, seed, seed_abundance, singletons] \<Rightarrow>
          (case py_int 10 seed_abundance of
             None \<Rightarrow> Inl ValueError
           | Some sa \<Rightarrow>
               if int_lt_float sa threshold then Inr (Break seeds)
               else bind_err (prune_record threshold seeds cloud mass seed singletons)
                      (\<lambda>seeds'. Inr (Continue seeds')))
      | _ \<Rightarrow> Inl ValueError)"

text \<open>
  The function updates \<^verbatim>\<open>seeds\<close> in place and returns \<^verbatim>\<open>None\<close>; the model returns the
  updated buckets.
\<close>

definition stats_parse ::
  "string list \<Rightarrow> pyfloat \<Rightarrow> 'v dict list \<Rightarrow> error + 'v dict list" where
  "stats_parse global_stats_file threshold seeds =
     for_lines_break (stats_line threshold) seeds global_stats_file"

section \<open>GenealogyForestBuilder: \<^verbatim>\<open>struct_parse\<close>\<close>

record sp_state =
  sp_number_of_seeds :: int
  sp_previous_cluster_id :: int
  sp_has_a_local_seed :: "bool option"
  sp_clusters :: "string list dict"
  sp_new_clusters :: "string list dict list"

text \<open>
  Lines 209 to 212: the first sub-cluster holding \<open>father\<close> receives \<open>son\<close>;
  \<open>None\<close> when the loop ends without \<^verbatim>\<open>break\<close>.
\<close>

fun attach_to_father ::
  "string \<Rightarrow> string \<Rightarrow> string list dict \<Rightarrow> string list dict option" where
  "attach_to_father father son [] = None"
| "attach_to_father father son ((d, members) # rest) =
     (if father \<in> set members then Some ((d, set_add son members) # rest)
      else map_option (Cons (d, members)) (attach_to_father father son rest))"

text \<open>Lines 216 to 218: every sub-cluster holding \<open>son\<close> receives \<open>father\<close>.\<close>

definition attach_to_son :: "string \<Rightarrow> string \<Rightarrow> string list dict \<Rightarrow> string list dict" where
  "attach_to_son father son clusters =
     map (\<lambda>(d, members). if son \<in> set members then (d, set_add father members)
                           else (d, members)) clusters"

definition populate :: "string \<Rightarrow> string \<Rightarrow> string list dict \<Rightarrow> string list dict" where
  "populate father son clusters =
     (case attach_to_father father son clusters of
        Some clusters' \<Rightarrow> clusters'
      | None \<Rightarrow> attach_to_son father son clusters)"

text \<open>Lines 182 to 191: a change of cluster id saves the sub-clusters and starts anew.\<close>

definition new_cluster :: "string list \<Rightarrow> string \<Rightarrow> int \<Rightarrow> sp_state \<Rightarrow> sp_state" where
  "new_cluster global_seeds_set father cid st =
     (if cid \<noteq> sp_previous_cluster_id st
      then st\<lparr>sp_new_clusters :=
                 (if sp_clusters st \<noteq> [] then sp_new_clusters st @ [sp_clusters st]
                  else sp_new_clusters st),
              sp_previous_cluster_id := cid,
              sp_has_a_local_seed := Some (father \<in> set global_seeds_set),
              sp_clusters :=
                 (if father \<in> set global_seeds_set then [(father, [father])] else [])\<rparr>
      else st)"

definition struct_line ::
  "'v dict list \<Rightarrow> string list \<Rightarrow> sp_state \<Rightarrow> string \<Rightarrow> error + sp_state loop" where
  "struct_line seeds global_seeds_set st line =
     (case split_on TAB (strip line) of
        [father, son, diffs_field, cluster_id, steps] \<Rightarrow>
          (case py_int 10 cluster_id of
             None \<Rightarrow> Inl ValueError
           | Some cid \<Rightarrow>
               let st1 = new_cluster global_seeds_set father cid st
               in if sp_number_of_seeds st1 = 0 then Inr (Break st1)
                  else (case sp_has_a_local_seed st1 of
                          None \<Rightarrow> Inl UnboundLocalError
                        | Some False \<Rightarrow> Inr (Continue st1)
                        | Some True \<Rightarrow>
                            bind_err (bucket_of seeds son) (\<lambda>index.
                              if map_of (seeds ! index) son \<noteq> None
                              then Inr (Continue
                                     (st1\<lparr>sp_number_of_seeds := sp_number_of_seeds st1 - 1,
                                          sp_clusters :=
                                            AList.update son [son] (sp_clusters st1)\<rparr>))
                              else Inr (Continue
                                     (st1\<lparr>sp_clusters :=
                                            populate father son (sp_clusters st1)\<rparr>)))))
      | _ \<Rightarrow> Inl ValueError)"

definition struct_parse ::
  "string list \<Rightarrow> 'v dict list \<Rightarrow> string dict list \<Rightarrow> error + string list dict list" where
  "struct_parse struct_file seeds global_seeds =
     (let global_seeds_set = remdups (concat (map (map snd) global_seeds));
          number_of_seeds = sum_list (map (\<lambda>d. int (length d)) seeds)
      in bind_err
           (for_lines_break (struct_line seeds global_seeds_set)
              \<lparr>sp_number_of_seeds = number_of_seeds, sp_previous_cluster_id = 0,
               sp_has_a_local_seed = None, sp_clusters = [], sp_new_clusters = []\<rparr>
              struct_file)
           (\<lambda>st. Inr (sp_new_clusters st)))"

section \<open>SubclusterFinalizer\<close>

subsection \<open>\<^verbatim>\<open>add_abundance_values\<close>\<close>

text \<open>
  Iterating over a \<^verbatim>\<open>set\<close> visits its elements in an order the program does not
  control (it depends on the hashes of the strings). The functions that iterate over a
  set take that order as a parameter: \<open>iter_order xs\<close> is the order in which the
  elements \<open>xs\<close> of a set are visited; it is some rearrangement of \<open>xs\<close>.
\<close>

type_synonym set_order = "string list \<Rightarrow> string list"

definition valid_order :: "set_order \<Rightarrow> bool" where
  "valid_order iter_order \<longleftrightarrow> (\<forall>xs. mset (iter_order xs) = mset xs)"

text \<open>
  \<^verbatim>\<open>copy.deepcopy(new_clusters)\<close> holds sets of members; the loop replaces them, one
  sub-cluster at a time, by sorted lists of (amplicon, abundance) pairs.
\<close>

datatype cval = Members "string list" | Swarm "(string \<times> int) list"

fun map_err :: "('a \<Rightarrow> error + 'b) \<Rightarrow> 'a list \<Rightarrow> error + 'b list" where
  "map_err f [] = Inr []"
| "map_err f (x # xs) = bind_err (f x) (\<lambda>y. bind_err (map_err f xs) (\<lambda>ys. Inr (y # ys)))"

fun fold_err :: "('a \<Rightarrow> 's \<Rightarrow> error + 's) \<Rightarrow> 'a list \<Rightarrow> 's \<Rightarrow> error + 's" where
  "fold_err f [] st = Inr st"
| "fold_err f (x # xs) st = bind_err (f x st) (fold_err f xs)"

text \<open>Lines 233 to 235, for one member.\<close>

definition with_abundance :: "int dict list \<Rightarrow> string \<Rightarrow> error + (string \<times> int)" where
  "with_abundance swarms amplicon =
     bind_err (bucket_of swarms amplicon) (\<lambda>index.
       case map_of (swarms ! index) amplicon of
         None \<Rightarrow> Inl KeyError
       | Some abundance \<Rightarrow> Inr (amplicon, abundance))"

text \<open>\<^verbatim>\<open>swarm.sort(key = lambda x: (-x[1], x[0]))\<close>: a stable sort.\<close>

definition swarm_key :: "string \<times> int \<Rightarrow> int \<times> string" where
  "swarm_key x = (- snd x, fst x)"

definition sort_swarm :: "(string \<times> int) list \<Rightarrow> (string \<times> int) list" where
  "sort_swarm swarm = sort_key swarm_key swarm"

text \<open>Lines 231 to 246: one sub-cluster of the super-cluster with index \<open>i\<close>.\<close>

definition finalize_cluster ::
  "set_order \<Rightarrow> int dict list \<Rightarrow> string \<times> string list \<Rightarrow> cval dict \<Rightarrow> error + cval dict" where
  "finalize_cluster iter_order swarms entry nca_i =
     (case entry of (cluster, members) \<Rightarrow>
        bind_err (map_err (with_abundance swarms) (iter_order members)) (\<lambda>unsorted.
          case sort_swarm unsorted of
            [] \<Rightarrow> Inl IndexError
          | (seed, seed_abundance) # others \<Rightarrow>
              if seed \<noteq> cluster
              then bind_err (dict_del cluster nca_i) (\<lambda>d.
                     Inr (AList.update seed (Swarm (sort_swarm unsorted)) d))
              else Inr (AList.update cluster (Swarm (sort_swarm unsorted)) nca_i)))"

definition deepcopy :: "string list dict \<Rightarrow> cval dict" where
  "deepcopy super_cluster = map (\<lambda>(cluster, members). (cluster, Members members)) super_cluster"

definition add_abundance_values ::
  "set_order \<Rightarrow> string list dict list \<Rightarrow> int dict list \<Rightarrow> error + cval dict list" where
  "add_abundance_values iter_order new_clusters swarms =
     map_err (\<lambda>super_cluster.
                fold_err (finalize_cluster iter_order swarms) super_cluster
                  (deepcopy super_cluster))
       new_clusters"

subsection \<open>\<^verbatim>\<open>per_cluster_stats\<close>\<close>

record stat =
  st_uniques :: nat
  st_total_abundance :: int
  st_seed :: string
  st_seed_abundance :: int
  st_singletons :: nat
  st_steps :: string
  st_layers :: string

text \<open>
  Lines 259 to 279. A sub-cluster that still held a set would raise \<^verbatim>\<open>TypeError\<close> at
  \<^verbatim>\<open>super_cluster[cluster][0]\<close>.
\<close>

definition cluster_stat :: "string \<times> cval \<Rightarrow> error + stat" where
  "cluster_stat entry =
     (case entry of
        (cluster, Members members) \<Rightarrow> Inl TypeError
      | (cluster, Swarm []) \<Rightarrow> Inl IndexError
      | (cluster, Swarm ((seed, seed_abundance) # others)) \<Rightarrow>
          Inr \<lparr>st_uniques = length ((seed, seed_abundance) # others),
               st_total_abundance = sum_list (map snd ((seed, seed_abundance) # others)),
               st_seed = cluster,
               st_seed_abundance = seed_abundance,
               st_singletons =
                 length (filter (\<lambda>(amplicon, abundance). abundance = 1)
                           ((seed, seed_abundance) # others)),
               st_steps = ''0'',
               st_layers = ''0''\<rparr>)"

text \<open>\<^verbatim>\<open>xs.sort(key=k, reverse=True)\<close>: stable, descending.\<close>

definition sort_key_reverse :: "('a \<Rightarrow> 'k::linorder) \<Rightarrow> 'a list \<Rightarrow> 'a list" where
  "sort_key_reverse k xs = rev (sort_key k (rev xs))"

definition sort_stats :: "stat list \<Rightarrow> stat list" where
  "sort_stats new_stats =
     sort_key_reverse (\<lambda>t. (st_total_abundance t, st_uniques t))
       (sort_key st_seed new_stats)"

fun join :: "string \<Rightarrow> string list \<Rightarrow> string" where
  "join sep [] = []"
| "join sep [x] = x"
| "join sep (x # y # ys) = x @ sep @ join sep (y # ys)"

definition stat_line :: "stat \<Rightarrow> string" where
  "stat_line t =
     join [TAB] [py_str (int (st_uniques t)), py_str (st_total_abundance t), st_seed t,
                 py_str (st_seed_abundance t), py_str (int (st_singletons t)),
                 st_steps t, st_layers t]"

text \<open>The sorted records, as returned, and the lines written to the statistics file.\<close>

definition per_cluster_stats :: "cval dict list \<Rightarrow> error + (stat list \<times> string list)" where
  "per_cluster_stats new_clusters_with_abundance =
     bind_err (map_err cluster_stat (concat new_clusters_with_abundance)) (\<lambda>new_stats.
       Inr (sort_stats new_stats, map stat_line (sort_stats new_stats)))"

subsection \<open>\<^verbatim>\<open>per_cluster_swarms\<close>\<close>

text \<open>
  One line per sub-cluster. On a sub-cluster that still held a set of strings,
  \<^verbatim>\<open>t[0]\<close> and \<^verbatim>\<open>t[1]\<close> would be the first two characters of each member.
\<close>

definition swarm_token :: "string \<times> int \<Rightarrow> string" where
  "swarm_token t = fst t @ '';size='' @ py_str (snd t)"

definition swarm_line :: "set_order \<Rightarrow> string \<times> cval \<Rightarrow> error + string" where
  "swarm_line iter_order entry =
     (case entry of
        (cluster, Swarm swarm) \<Rightarrow> Inr (join '' '' (map swarm_token swarm))
      | (cluster, Members members) \<Rightarrow>
          bind_err (map_err (\<lambda>t. if length t < 2 then Inl IndexError
                                  else Inr ([t ! 0] @ '';size='' @ [t ! 1]))
                      (iter_order members))
            (\<lambda>tokens. Inr (join '' '' tokens)))"

text \<open>
  A loop that prints one item per iteration into an open file: what was printed before
  an exception stays in the file.
\<close>

fun emit_err :: "('a \<Rightarrow> error + 'b list) \<Rightarrow> 'a list \<Rightarrow> 'b list \<times> error option" where
  "emit_err f [] = ([], None)"
| "emit_err f (x # xs) =
     (case f x of
        Inl e \<Rightarrow> ([], Some e)
      | Inr ys \<Rightarrow> (case emit_err f xs of (zs, r) \<Rightarrow> (ys @ zs, r)))"

definition per_cluster_swarms :: "set_order \<Rightarrow> cval dict list \<Rightarrow> string list \<times> error option" where
  "per_cluster_swarms iter_order new_clusters_with_abundance =
     emit_err (\<lambda>entry. bind_err (swarm_line iter_order entry) (\<lambda>l. Inr [l]))
       (concat new_clusters_with_abundance)"

section \<open>MembershipIndexer: \<^verbatim>\<open>swarms_parse\<close>\<close>

text \<open>
  \<^verbatim>\<open>re.split("_|;size=|;? ", line)\<close>: at each position the alternatives are tried in
  order; \<open>sep_len\<close> is the length of the separator found there, \<open>0\<close> when there is none.
\<close>

definition sep_len :: "string \<Rightarrow> nat" where
  "sep_len s =
     (if take 1 s = ''_'' then 1
      else if take 6 s = '';size='' then 6
      else if take 2 s = ''; '' then 2
      else if take 1 s = '' '' then 1
      else 0)"

function re_split :: "string \<Rightarrow> string list" where
  "re_split [] = [[]]"
| "re_split (c # cs) =
     (if sep_len (c # cs) = 0
      then (case re_split cs of [] \<Rightarrow> [[c]] | w # ws \<Rightarrow> (c # w) # ws)
      else [] # re_split (drop (sep_len (c # cs) - 1) cs))"
  by pat_completeness auto
termination
  by (relation "measure length") auto

text \<open>\<^verbatim>\<open>xs[0::2]\<close> and \<^verbatim>\<open>xs[1::2]\<close>.\<close>

fun evens :: "'a list \<Rightarrow> 'a list" where
  "evens [] = []"
| "evens [x] = [x]"
| "evens (x # y # rest) = x # evens rest"

fun odds :: "'a list \<Rightarrow> 'a list" where
  "odds [] = []"
| "odds [x] = []"
| "odds (x # y # rest) = y # odds rest"

record sw_state =
  sw_swarms :: "int dict list"
  sw_global_seeds :: "string dict list"
  sw_number_of_seeds :: int

text \<open>Lines 153 and 154, and lines 156 and 157.\<close>

definition record_abundance :: "string \<times> string \<Rightarrow> int dict list \<Rightarrow> error + int dict list" where
  "record_abundance pair swarms =
     (case pair of (amplicon, abundance) \<Rightarrow>
        bind_err (bucket_of swarms amplicon) (\<lambda>index.
          case py_int 10 abundance of
            None \<Rightarrow> Inl ValueError
          | Some a \<Rightarrow> Inr (swarms[index := AList.update amplicon a (swarms ! index)])))"

definition record_global_seed ::
  "string \<Rightarrow> string \<Rightarrow> string dict list \<Rightarrow> error + string dict list" where
  "record_global_seed seed amplicon global_seeds =
     bind_err (bucket_of global_seeds amplicon) (\<lambda>index.
       Inr (global_seeds[index := AList.update amplicon seed (global_seeds ! index)]))"

definition swarms_line ::
  "set_order \<Rightarrow> string list \<Rightarrow> sw_state \<Rightarrow> string \<Rightarrow> error + sw_state loop" where
  "swarms_line iter_order seeds_set st line =
     (let amplicons = evens (re_split (strip line));
          abundances = odds (re_split (strip line))
      in case amplicons of
           [] \<Rightarrow> Inl IndexError
         | seed # others \<Rightarrow>
             let common = filter (\<lambda>a. a \<in> set seeds_set) (remdups amplicons)
             in bind_err
                  (if common \<noteq> []
                   then bind_err (fold_err record_abundance (zip amplicons abundances)
                                    (sw_swarms st)) (\<lambda>swarms.
                        bind_err (fold_err (record_global_seed seed) (iter_order common)
                                    (sw_global_seeds st)) (\<lambda>global_seeds.
                          Inr \<lparr>sw_swarms = swarms, sw_global_seeds = global_seeds,
                               sw_number_of_seeds =
                                 sw_number_of_seeds st - int (length common)\<rparr>))
                   else Inr st)
                  (\<lambda>st'. if sw_number_of_seeds st' = 0 then Inr (Break st')
                          else Inr (Continue st')))"

definition swarms_parse ::
  "set_order \<Rightarrow> string list \<Rightarrow> 'v dict list \<Rightarrow> error + (int dict list \<times> string dict list)" where
  "swarms_parse iter_order swarms_file seeds =
     (let seeds_set = remdups (concat (map (map fst) seeds))
      in bind_err
           (for_lines_break (swarms_line iter_order seeds_set)
              \<lparr>sw_swarms = new_buckets, sw_global_seeds = new_buckets,
               sw_number_of_seeds = int (length seeds_set)\<rparr> swarms_file)
           (\<lambda>st. Inr (sw_swarms st, sw_global_seeds st)))"

section \<open>Representative sequences: \<^verbatim>\<open>fasta_parse\<close>\<close>

text \<open>\<^verbatim>\<open>s.split(";size=")\<close> and \<^verbatim>\<open>s.strip(">;\n")\<close>.\<close>

function split_size :: "string \<Rightarrow> string list" where
  "split_size [] = [[]]"
| "split_size (c # cs) =
     (if take 6 (c # cs) = '';size='' then [] # split_size (drop 5 cs)
      else (case split_size cs of [] \<Rightarrow> [[c]] | w # ws \<Rightarrow> (c # w) # ws))"
  by pat_completeness auto
termination
  by (relation "measure length") auto

definition strip_header :: "string \<Rightarrow> string" where
  "strip_header s =
     rev (dropWhile (\<lambda>c. c \<in> set [CHR ''>'', CHR '';'', CHR 0x0A])
            (rev (dropWhile (\<lambda>c. c \<in> set [CHR ''>'', CHR '';'', CHR 0x0A]) s)))"

record fa_state =
  fa_fasta :: "(int \<times> string list) dict list"
  fa_current :: "(string \<times> int) option"

text \<open>Lines 317 to 319: one target per statistics record.\<close>

definition fasta_target ::
  "stat \<Rightarrow> (int \<times> string list) dict list \<Rightarrow> error + (int \<times> string list) dict list" where
  "fasta_target t fasta =
     bind_err (bucket_of fasta (st_seed t)) (\<lambda>index.
       Inr (fasta[index := AList.update (st_seed t) (st_total_abundance t, [])
                              (fasta ! index)]))"

text \<open>
  Lines 327 to 334. \<open>fa_current\<close> holds \<^verbatim>\<open>amplicon\<close> and \<^verbatim>\<open>index\<close>, unbound until the
  first header line.
\<close>

definition fasta_line :: "int \<Rightarrow> fa_state \<Rightarrow> string \<Rightarrow> error + fa_state loop" where
  "fasta_line min_abundance st line =
     (if take 1 line = ''>''
      then (case split_size (strip_header line) of
              [amplicon, abundance] \<Rightarrow>
                (case hex_index amplicon of
                   None \<Rightarrow> Inl ValueError
                 | Some index \<Rightarrow>
                     (case py_int 10 abundance of
                        None \<Rightarrow> Inl ValueError
                      | Some a \<Rightarrow>
                          if a < min_abundance
                          then Inr (Break (st\<lparr>fa_current := Some (amplicon, index)\<rparr>))
                          else Inr (Continue (st\<lparr>fa_current := Some (amplicon, index)\<rparr>))))
            | _ \<Rightarrow> Inl ValueError)
      else (case fa_current st of
              None \<Rightarrow> Inl UnboundLocalError
            | Some (amplicon, index) \<Rightarrow>
                (case norm_index (length (fa_fasta st)) index of
                   None \<Rightarrow> Inl IndexError
                 | Some j \<Rightarrow>
                     (case map_of (fa_fasta st ! j) amplicon of
                        None \<Rightarrow> Inr (Continue st)
                      | Some (abundance, sequences) \<Rightarrow>
                          Inr (Continue
                                 (st\<lparr>fa_fasta :=
                                       (fa_fasta st)[j := AList.update amplicon
                                          (abundance, sequences @ [strip line])
                                          (fa_fasta st ! j)]\<rparr>))))))"

text \<open>
  Lines 337 to 346: one record (two lines) per statistics record; a target without
  exactly one sequence line ends the run with \<^verbatim>\<open>sys.exit(-1)\<close>.
\<close>

definition representative ::
  "(int \<times> string list) dict list \<Rightarrow> stat \<Rightarrow> error + string list" where
  "representative fasta t =
     bind_err (bucket_of fasta (st_seed t)) (\<lambda>index.
       case map_of (fasta ! index) (st_seed t) of
         None \<Rightarrow> Inl KeyError
       | Some (abundance, [sequence]) \<Rightarrow>
           Inr [''>'' @ st_seed t @ '';size='' @ py_str abundance, sequence]
       | Some (abundance, _) \<Rightarrow> Inl (SystemExit (- 1)))"

text \<open>
  The lines written to the representatives file (\<open>None\<close>: the file was not opened) and
  the exception that ended the function, if any.
\<close>

definition fasta_parse :: "string list \<Rightarrow> stat list \<Rightarrow> string list option \<times> error option" where
  "fasta_parse fasta_file new_stats =
     (case fold_err fasta_target new_stats new_buckets of
        Inl e \<Rightarrow> (None, Some e)
      | Inr fasta \<Rightarrow>
          (case new_stats of
             [] \<Rightarrow> (None, Some ValueError)
           | t # ts \<Rightarrow>
               (case for_lines_break
                       (fasta_line (fold min (map st_seed_abundance ts) (st_seed_abundance t)))
                       \<lparr>fa_fasta = fasta, fa_current = None\<rparr> fasta_file of
                  Inl e \<Rightarrow> (None, Some e)
                | Inr st \<Rightarrow>
                    (case emit_err (representative (fa_fasta st)) new_stats of
                       (written, r) \<Rightarrow> (Some written, r)))))"

section \<open>The pipeline: \<^verbatim>\<open>main\<close>\<close>

record inputs =
  args_global_stats_file :: "string list"
  args_per_sample_stats_file :: "string list"
  args_struct_file :: "string list"
  args_swarms_file :: "string list"
  args_fasta_file :: "string list"

text \<open>The three files written, each \<open>None\<close> as long as it was not opened.\<close>

record outputs =
  out_stats :: "string list option"
  out_swarms :: "string list option"
  out_representatives :: "string list option"

definition no_outputs :: outputs where
  "no_outputs = \<lparr>out_stats = None, out_swarms = None, out_representatives = None\<rparr>"

text \<open>The stages before anything is written.\<close>

definition cleave :: "set_order \<Rightarrow> inputs \<Rightarrow> error + cval dict list" where
  "cleave iter_order files =
     bind_err (per_sample_stats_parse (args_per_sample_stats_file files) PERCENTAGE) (\<lambda>(threshold, seeds0).
     bind_err (stats_parse (args_global_stats_file files) threshold seeds0) (\<lambda>seeds.
     bind_err (swarms_parse iter_order (args_swarms_file files) seeds) (\<lambda>(swarms, global_seeds).
     bind_err (struct_parse (args_struct_file files) seeds global_seeds) (\<lambda>new_clusters.
       add_abundance_values iter_order new_clusters swarms))))"

definition main :: "set_order \<Rightarrow> inputs \<Rightarrow> outputs \<times> error option" where
  "main iter_order files =
     (case cleave iter_order files of
        Inl e \<Rightarrow> (no_outputs, Some e)
      | Inr new_clusters_with_abundance \<Rightarrow>
          (case per_cluster_stats new_clusters_with_abundance of
             Inl e \<Rightarrow> (no_outputs, Some e)
           | Inr (new_stats, stats_lines) \<Rightarrow>
               (case per_cluster_swarms iter_order new_clusters_with_abundance of
                  (swarm_lines, Some e) \<Rightarrow>
                    (no_outputs\<lparr>out_stats := Some stats_lines,
                                out_swarms := Some swarm_lines\<rparr>, Some e)
                | (swarm_lines, None) \<Rightarrow>
                    (case fasta_parse (args_fasta_file files) new_stats of
                       (representatives, r) \<Rightarrow>
                         (\<lparr>out_stats = Some stats_lines, out_swarms = Some swarm_lines,
                           out_representatives = representatives\<rparr>, r)))))"

section \<open>Notions used to state the properties\<close>

subsection \<open>Records of the per-sample statistics file\<close>

definition fields :: "string \<Rightarrow> string list" where
  "fields line = split_on TAB (strip line)"



text \<open>
  The samples in which \<open>seed\<close> is recorded, one entry per record, and the number of
  distinct ones among them.
\<close>

definition samples_of :: "string \<Rightarrow> string list \<Rightarrow> string list" where
  "samples_of seed file =
     map (\<lambda>line. fields line ! 0) (filter (\<lambda>line. fields line ! 3 = seed) file)"

definition occurrences :: "string \<Rightarrow> string list \<Rightarrow> nat" where
  "occurrences seed file = length (remdups (samples_of seed file))"


text \<open>An amplicon is a candidate when it is a key of one of the buckets.\<close>

definition candidate :: "string \<Rightarrow> 'v dict list \<Rightarrow> bool" where
  "candidate a seeds \<longleftrightarrow> (\<exists>d \<in> set seeds. a \<in> fst ` set d)"

subsection \<open>Variants of the global-seed filter\<close>







subsection \<open>Merge edges and sub-clusters\<close>


text \<open>The members of a super-cluster: the union of its sub-clusters.\<close>

definition all_members :: "string list dict \<Rightarrow> string set" where
  "all_members clusters = \<Union> (set (map (set \<circ> snd) clusters))"

section \<open>Basic facts\<close>

lemma bind_err_Inr_iff: "bind_err m f = Inr y \<longleftrightarrow> (\<exists>x. m = Inr x \<and> f x = Inr y)"
  by (cases m) auto

lemma bind_err_Inl_iff: "bind_err m f = Inl e \<longleftrightarrow> m = Inl e \<or> (\<exists>x. m = Inr x \<and> f x = Inl e)"
  by (cases m) auto

lemma split_on_not_Nil: "split_on sep s \<noteq> []"
  by (induction s) (auto split: list.splits)








lemma bucket_of_less: "bucket_of buckets a = Inr j \<Longrightarrow> j < length buckets"
  by (auto simp: bucket_of_def norm_index_def split: option.splits if_splits)

section \<open>C8: records of the per-sample statistics file\<close>













section \<open>C2: edges that attach to no sub-cluster\<close>







section \<open>C3 and C1: the last flagged cluster\<close>

text \<open>
  Claim C3, evaluated. The cluster is the whole merge log, \<open>B\<close> is the only candidate and
  \<open>A\<close> its global seed. The edge \<open>A \<leftarrow> B\<close> brings the count of remaining candidates to
  zero, so the second line leaves the loop at line 194; the sub-clusters built so far
  are never appended to \<^verbatim>\<open>new_clusters\<close>, which is appended to on a change of cluster id
  only. No sub-cluster is emitted, and the statistics are empty.
\<close>

theorem end_to_end_example_emits_nothing:
  "struct_parse [''A	B	1	1	1'', ''B	C	1	1	2'', ''A	D	1	1	3'', ''D	E	1	1	4'']
     ((new_buckets :: int dict list)[11 := [(''B'', 1)]])
     ((new_buckets :: string dict list)[11 := [(''B'', ''A'')]]) = Inr []
   \<and> add_abundance_values id []
       ((new_buckets :: int dict list)[10 := [(''A'', 100)], 11 := [(''B'', 40)],
          12 := [(''C'', 40)], 13 := [(''D'', 5)], 14 := [(''E'', 1)]]) = Inr []
   \<and> per_cluster_stats [] = Inr ([], [])"
  by code_simp

text \<open>
  The same cluster, followed by an edge of another cluster and with a second candidate
  \<open>f1\<close> that the merge log never mentions: the loop reaches the change of cluster id,
  and the two sub-clusters of the example come out as expected.
\<close>

lemma end_to_end_example_when_flushed:
  "bind_err
     (struct_parse [''A	B	1	1	1'', ''B	C	1	1	2'', ''A	D	1	1	3'', ''D	E	1	1	4'',
                    ''F	G	1	2	1'']
        ((new_buckets :: int dict list)[11 := [(''B'', 1)], 241 := [(''f1'', 1)]])
        ((new_buckets :: string dict list)[11 := [(''B'', ''A'')], 241 := [(''f1'', ''f1'')]]))
     (\<lambda>new_clusters. bind_err
        (add_abundance_values id new_clusters
           ((new_buckets :: int dict list)[10 := [(''A'', 100)], 11 := [(''B'', 40)],
              12 := [(''C'', 40)], 13 := [(''D'', 5)], 14 := [(''E'', 1)]]))
        (\<lambda>nca. Inr (new_clusters, nca, map_sum id fst (per_cluster_stats nca))))
   = Inr ([[(''A'', [''A'', ''D'', ''E'']), (''B'', [''B'', ''C''])]],
          [[(''A'', Swarm [(''A'', 100), (''D'', 5), (''E'', 1)]),
            (''B'', Swarm [(''B'', 40), (''C'', 40)])]],
          Inr [\<lparr>st_uniques = 3, st_total_abundance = 106, st_seed = ''A'',
                 st_seed_abundance = 100, st_singletons = 1, st_steps = ''0'',
                 st_layers = ''0''\<rparr>,
               \<lparr>st_uniques = 2, st_total_abundance = 80, st_seed = ''B'',
                 st_seed_abundance = 40, st_singletons = 0, st_steps = ''0'',
                 st_layers = ''0''\<rparr>])"
  by code_simp

text \<open>
  Claim C1, evaluated. The merge log holds one flagged cluster, \<open>A \<leftarrow> B\<close>, \<open>B \<leftarrow> C\<close>,
  with the candidate \<open>B\<close>; a second candidate \<open>f1\<close> keeps the count of remaining
  candidates above zero. The loop reads both edges and ends with the file; the
  sub-clusters \<open>{A}\<close> and \<open>{B, C}\<close> are never appended to \<^verbatim>\<open>new_clusters\<close>: no
  sub-cluster is emitted for the flagged cluster, so the union of the emitted member
  sets is empty and differs from \<open>{A, B, C}\<close>.
\<close>

theorem last_flagged_cluster_not_emitted:
  "struct_parse [''A	B	1	1	1'', ''B	C	1	1	2'']
     ((new_buckets :: int dict list)[11 := [(''B'', 1)], 241 := [(''f1'', 1)]])
     ((new_buckets :: string dict list)[11 := [(''B'', ''A'')], 241 := [(''f1'', ''f1'')]])
   = Inr []
   \<and> for_lines_break
       (struct_line ((new_buckets :: int dict list)[11 := [(''B'', 1)], 241 := [(''f1'', 1)]])
          [''A'', ''f1''])
       \<lparr>sp_number_of_seeds = 2, sp_previous_cluster_id = 0, sp_has_a_local_seed = None,
        sp_clusters = [], sp_new_clusters = []\<rparr>
       [''A	B	1	1	1'', ''B	C	1	1	2'']
     = Inr \<lparr>sp_number_of_seeds = 1, sp_previous_cluster_id = 1,
            sp_has_a_local_seed = Some True,
            sp_clusters = [(''A'', [''A'']), (''B'', [''B'', ''C''])],
            sp_new_clusters = []\<rparr>"
  by code_simp

section \<open>C6: stopping at the first record below the threshold\<close>










section \<open>C5: a seed that changes after sorting\<close>

lemma mset_pair_cases:
  assumes "mset zs = mset [x, y]"
  shows "zs = [x, y] \<or> zs = [y, x]"
proof -
  from assms have "length zs = 2"
    by (metis length_Cons list.size(3) mset_eq_length numeral_2_eq_2)
  then obtain u v where zs: "zs = [u, v]"
    by (auto simp: length_Suc_conv numeral_2_eq_2)
  with assms have "{#u, v#} = {#x, y#}" by simp
  then show ?thesis
    unfolding zs by (auto simp: add_eq_conv_ex)
qed

lemma valid_order_pair:
  "valid_order iter_order \<Longrightarrow> iter_order [x, y] = [x, y] \<or> iter_order [x, y] = [y, x]"
  by (rule mset_pair_cases) (simp add: valid_order_def)

lemma sort_swarm_pair:
  "X \<noteq> Y \<Longrightarrow>
     sort_swarm [(X, a), (Y, a)] = (if Y < X then [(Y, a), (X, a)] else [(X, a), (Y, a)])"
  by (auto simp: sort_swarm_def swarm_key_def)

lemma sort_swarm_pair':
  "X \<noteq> Y \<Longrightarrow>
     sort_swarm [(Y, a), (X, a)] = (if Y < X then [(Y, a), (X, a)] else [(X, a), (Y, a)])"
  by (auto simp: sort_swarm_def swarm_key_def)

lemma finalize_cluster_rekey:
  assumes "map_err (with_abundance swarms) (iter_order members) = Inr unsorted"
    and "sort_swarm unsorted = (seed, seed_abundance) # others"
    and "seed \<noteq> cluster"
    and "map_of nca_i cluster \<noteq> None"
  shows "finalize_cluster iter_order swarms (cluster, members) nca_i =
           Inr (AList.update seed (Swarm (sort_swarm unsorted)) (AList.delete cluster nca_i))"
  using assms by (simp add: finalize_cluster_def dict_del_def)

lemma finalize_cluster_keep:
  assumes "map_err (with_abundance swarms) (iter_order members) = Inr unsorted"
    and "sort_swarm unsorted = (cluster, seed_abundance) # others"
  shows "finalize_cluster iter_order swarms (cluster, members) nca_i =
           Inr (AList.update cluster (Swarm (sort_swarm unsorted)) nca_i)"
  using assms by (simp add: finalize_cluster_def)

lemma add_abundance_values_pair:
  assumes "valid_order iter_order" and "X \<noteq> Y"
    and "with_abundance swarms X = Inr (X, a)" and "with_abundance swarms Y = Inr (Y, a)"
  shows "add_abundance_values iter_order [[(X, [X, Y])]] swarms =
           Inr [[if Y < X then (Y, Swarm [(Y, a), (X, a)]) else (X, Swarm [(X, a), (Y, a)])]]"
proof -
  from valid_order_pair [OF assms(1), of X Y]
  consider (same) "iter_order [X, Y] = [X, Y]" | (swapped) "iter_order [X, Y] = [Y, X]"
    by blast
  then obtain unsorted where
    u: "map_err (with_abundance swarms) (iter_order [X, Y]) = Inr unsorted"
    and s: "sort_swarm unsorted = (if Y < X then [(Y, a), (X, a)] else [(X, a), (Y, a)])"
  proof cases
    case same
    show ?thesis
      by (rule that [of "[(X, a), (Y, a)]"])
        (simp_all add: same assms(3,4) sort_swarm_pair [OF assms(2)])
  next
    case swapped
    show ?thesis
      by (rule that [of "[(Y, a), (X, a)]"])
        (simp_all add: swapped assms(3,4) sort_swarm_pair' [OF assms(2)])
  qed
  show ?thesis
  proof (cases "Y < X")
    case True
    with s have s': "sort_swarm unsorted = (Y, a) # [(X, a)]" by simp
    have "finalize_cluster iter_order swarms (X, [X, Y]) (deepcopy [(X, [X, Y])]) =
            Inr (AList.update Y (Swarm (sort_swarm unsorted))
                   (AList.delete X (deepcopy [(X, [X, Y])])))"
      using u s' assms(2)
      by (intro finalize_cluster_rekey [where iter_order = iter_order and members = "[X, Y]"])
        (auto simp: deepcopy_def)
    then show ?thesis
      using True s' by (simp add: add_abundance_values_def deepcopy_def)
  next
    case False
    with s have s': "sort_swarm unsorted = (X, a) # [(Y, a)]" by simp
    have "finalize_cluster iter_order swarms (X, [X, Y]) (deepcopy [(X, [X, Y])]) =
            Inr (AList.update X (Swarm (sort_swarm unsorted)) (deepcopy [(X, [X, Y])]))"
      using u s'
      by (intro finalize_cluster_keep [where iter_order = iter_order and members = "[X, Y]"])
        auto
    then show ?thesis
      using False s' by (simp add: add_abundance_values_def deepcopy_def)
  qed
qed

text \<open>
  Claim C5, as amended. When the first member of the sorted sub-cluster differs from the
  key of the sub-cluster, the sub-cluster is stored under the new seed and the old key
  is deleted, the other entries being left alone. A sub-cluster \<open>{X, Y}\<close> of two members
  with equal abundance and root key \<open>X\<close> ends under the smaller of the two names: it
  drifts to \<open>Y\<close> when \<open>Y\<close> is lexicographically smaller than \<open>X\<close>, and keeps \<open>X\<close>
  otherwise, in whatever order the two members are visited.
\<close>

theorem seed_drift_rekeying:
  assumes "valid_order iter_order"
  shows "(map_err (with_abundance swarms) (iter_order members) = Inr unsorted \<longrightarrow>
          sort_swarm unsorted = (seed, seed_abundance) # others \<longrightarrow>
          seed \<noteq> cluster \<longrightarrow> map_of nca_i cluster \<noteq> None \<longrightarrow>
          (\<exists>d. finalize_cluster iter_order swarms (cluster, members) nca_i = Inr d
             \<and> map_of d cluster = None
             \<and> map_of d seed = Some (Swarm (sort_swarm unsorted))
             \<and> (\<forall>k. k \<noteq> cluster \<and> k \<noteq> seed \<longrightarrow> map_of d k = map_of nca_i k)))
       \<and> (X \<noteq> Y \<longrightarrow> with_abundance swarms X = Inr (X, a) \<longrightarrow>
          with_abundance swarms Y = Inr (Y, a) \<longrightarrow>
          add_abundance_values iter_order [[(X, [X, Y])]] swarms =
            Inr [[if Y < X then (Y, Swarm [(Y, a), (X, a)])
                  else (X, Swarm [(X, a), (Y, a)])]])"
proof (intro conjI impI)
  assume u: "map_err (with_abundance swarms) (iter_order members) = Inr unsorted"
    and s: "sort_swarm unsorted = (seed, seed_abundance) # others"
    and ne: "seed \<noteq> cluster" and key: "map_of nca_i cluster \<noteq> None"
  let ?d = "AList.update seed (Swarm (sort_swarm unsorted)) (AList.delete cluster nca_i)"
  have "finalize_cluster iter_order swarms (cluster, members) nca_i = Inr ?d"
    using u s ne key
    by (intro finalize_cluster_rekey [where iter_order = iter_order and members = members])
      auto
  moreover have "map_of ?d cluster = None"
    using ne by (simp add: update_conv' delete_conv')
  moreover have "map_of ?d seed = Some (Swarm (sort_swarm unsorted))"
    by (simp add: update_conv')
  moreover have "\<forall>k. k \<noteq> cluster \<and> k \<noteq> seed \<longrightarrow> map_of ?d k = map_of nca_i k"
    by (simp add: update_conv' delete_conv')
  ultimately show "\<exists>d. finalize_cluster iter_order swarms (cluster, members) nca_i = Inr d
             \<and> map_of d cluster = None
             \<and> map_of d seed = Some (Swarm (sort_swarm unsorted))
             \<and> (\<forall>k. k \<noteq> cluster \<and> k \<noteq> seed \<longrightarrow> map_of d k = map_of nca_i k)"
    by blast
next
  assume "X \<noteq> Y" "with_abundance swarms X = Inr (X, a)" "with_abundance swarms Y = Inr (Y, a)"
  with assms show "add_abundance_values iter_order [[(X, [X, Y])]] swarms =
            Inr [[if Y < X then (Y, Swarm [(Y, a), (X, a)])
                  else (X, Swarm [(X, a), (Y, a)])]]"
    by (rule add_abundance_values_pair)
qed

text \<open>
  The sub-cluster \<open>{b, a}\<close> with root key \<open>b\<close> and abundances 10 and 10, its members
  visited in reverse order: the entry \<open>b\<close> is deleted and the sub-cluster is stored under
  \<open>a\<close>.
\<close>

theorem seed_drift_rekeying_witness:
  "valid_order rev
   \<and> (\<exists>d. finalize_cluster rev
            ((new_buckets :: int dict list)[10 := [(''a'', 10)], 11 := [(''b'', 10)]])
            (''b'', [''b'', ''a'']) [(''b'', Members [''b'', ''a''])] = Inr d
          \<and> map_of d ''b'' = None
          \<and> map_of d ''a'' = Some (Swarm [(''a'', 10), (''b'', 10)]))
   \<and> add_abundance_values rev [[(''b'', [''b'', ''a''])]]
        ((new_buckets :: int dict list)[10 := [(''a'', 10)], 11 := [(''b'', 10)]])
      = Inr [[(''a'', Swarm [(''a'', 10), (''b'', 10)])]]"
proof -
  let ?swarms = "(new_buckets :: int dict list)[10 := [(''a'', 10)], 11 := [(''b'', 10)]]"
  have v: "valid_order rev"
    by (simp add: valid_order_def)
  have u: "map_err (with_abundance ?swarms) (rev [''b'', ''a'']) = Inr [(''a'', 10), (''b'', 10)]"
    by code_simp
  have s: "sort_swarm [(''a'', 10), (''b'', 10)] = (''a'', 10) # [(''b'', 10)]"
    by code_simp
  have ne: "''a'' \<noteq> ''b''" "''b'' \<noteq> ''a''"
    by simp_all
  have key: "map_of [(''b'', Members [''b'', ''a''])] ''b'' \<noteq> None"
    by simp
  have wa: "with_abundance ?swarms ''a'' = Inr (''a'', 10)"
    by code_simp
  have wb: "with_abundance ?swarms ''b'' = Inr (''b'', 10)"
    by code_simp
  have lt: "''a'' < ''b''"
    by code_simp
  note inst = seed_drift_rekeying [OF v, where swarms = ?swarms and members = "[''b'', ''a'']"
      and unsorted = "[(''a'', 10), (''b'', 10)]" and seed = "''a''" and seed_abundance = 10
      and others = "[(''b'', 10)]" and cluster = "''b''"
      and nca_i = "[(''b'', Members [''b'', ''a''])]" and X = "''b''" and Y = "''a''" and a = 10]
  from inst [THEN conjunct1, rule_format, OF u s ne(1) key]
  have 1: "\<exists>d. finalize_cluster rev ?swarms (''b'', [''b'', ''a''])
                 [(''b'', Members [''b'', ''a''])] = Inr d
          \<and> map_of d ''b'' = None
          \<and> map_of d ''a'' = Some (Swarm [(''a'', 10), (''b'', 10)])"
    using s by auto
  from inst [THEN conjunct2, rule_format, OF ne(2) wb wa]
  have 2: "add_abundance_values rev [[(''b'', [''b'', ''a''])]] ?swarms
             = Inr [[(''a'', Swarm [(''a'', 10), (''b'', 10)])]]"
    using lt by simp
  show ?thesis
    by (rule conjI [OF v conjI [OF 1 2]])
qed

text \<open>
  Claim C5 as stated fails: the sub-cluster \<open>{b, a}\<close> with root key \<open>b\<close> and equal
  abundances, where \<open>a\<close> is lexicographically smaller than the root, does drift; its
  seed becomes \<open>a\<close>.
\<close>

theorem tie_with_smaller_name_counterexample:
  "''a'' < ''b''
   \<and> add_abundance_values id [[(''b'', [''b'', ''a''])]]
        ((new_buckets :: int dict list)[10 := [(''a'', 10)], 11 := [(''b'', 10)]])
      = Inr [[(''a'', Swarm [(''a'', 10), (''b'', 10)])]]"
  by code_simp

end
